theory Spec2Isabelle
  imports Main
begin

section \<open>The streaming client of versifi-go (websocket.go) and the REST signer (client.go)\<close>

text \<open>
  Go strings are byte sequences; \<open>string\<close> (a list of 8-bit characters) models them, and
  the conversion \<^verbatim>\<open>[]byte(s)\<close> is the identity.
\<close>

subsection \<open>Library functions the code calls\<close>

text \<open>
  \<^verbatim>\<open>hex.EncodeToString\<close>: two lower-case hexadecimal digits for each byte, high nibble
  first.
\<close>

definition hexdigit :: "nat \<Rightarrow> char" where
  "hexdigit n = ''0123456789abcdef'' ! (n mod 16)"

fun hex_EncodeToString :: "string \<Rightarrow> string" where
  "hex_EncodeToString [] = []"
| "hex_EncodeToString (b # bs) =
     hexdigit (of_char b div 16) # hexdigit (of_char b mod 16) # hex_EncodeToString bs"

text \<open>
  \<^verbatim>\<open>fmt.Sprintf("%d", n)\<close> for an integer: the decimal digits, most significant first,
  after a minus sign when the number is negative.
\<close>

function digits :: "int \<Rightarrow> string" where
  "digits n =
     (if n < 10 then [''0123456789'' ! nat n]
      else digits (n div 10) @ [''0123456789'' ! nat (n mod 10)])"
  by pat_completeness auto
termination
  by (relation "measure nat") auto

declare digits.simps [simp del]

definition Sprintf_d :: "int \<Rightarrow> string" where
  "Sprintf_d i = (if i < 0 then CHR ''-'' # digits (- i) else digits i)"

text \<open>
  Package \<^verbatim>\<open>time\<close>: an instant is its number of nanoseconds since the Unix epoch, a
  \<^verbatim>\<open>Duration\<close> is a number of nanoseconds, \<^verbatim>\<open>Unix()\<close> is the number of whole seconds
  since the epoch (rounded down).
\<close>

type_synonym Time = int
type_synonym Duration = int

definition Second :: Duration where
  "Second = 1000000000"

definition Minute :: Duration where
  "Minute = 60 * Second"

definition Add :: "Time \<Rightarrow> Duration \<Rightarrow> Time" where
  "Add t d = t + d"

definition Unix :: "Time \<Rightarrow> int" where
  "Unix t = t div Second"

text \<open>
  \<^verbatim>\<open>crypto/hmac\<close> with \<^verbatim>\<open>crypto/sha256\<close> is library code outside the repository. Every
  definition that signs takes the keyed hash as its first argument \<open>H\<close>: \<open>H key msg\<close> is
  the 32-byte MAC that \<^verbatim>\<open>hmac.New(sha256.New, key)\<close>, \<^verbatim>\<open>Write(msg)\<close>, \<^verbatim>\<open>Sum(nil)\<close> computes.
\<close>

type_synonym hmac = "string \<Rightarrow> string \<Rightarrow> string"

subsection \<open>Values on the wire\<close>

text \<open>
  The values handed to \<^verbatim>\<open>WriteJSON\<close> are Go map literals of strings and lists of strings;
  an object lists its members in the order of the literal.
\<close>

datatype json = JString string | JArray "json list" | JObject "(string \<times> json) list"

text \<open>\<^verbatim>\<open>WsResponse\<close>, the envelope every inbound frame is decoded into.\<close>

record WsResponse =
  Op :: string
  Success :: bool
  Message :: string

text \<open>
  An inbound frame: the raw bytes \<^verbatim>\<open>ReadMessage\<close> returned, and what
  \<^verbatim>\<open>json.Unmarshal(message, &wsResp)\<close> makes of them (\<open>None\<close> when it fails).
\<close>

record frame =
  raw :: string
  decoded :: "WsResponse option"

subsection \<open>Errors\<close>

datatype error =
    AlreadyConnected
  | FailedToConnect error
  | AuthenticationFailed error
  | AuthRejected string
  | AuthenticationTimeout
  | NotAuthenticated
  | NotConnected
  | FailedToCloseConnection error
  | TransportError string

text \<open>
  A call either returns or panics (\<^verbatim>\<open>close\<close> of a closed channel panics).
\<close>

datatype 'a outcome = Panic | Returned 'a

subsection \<open>The client\<close>

text \<open>
  A \<^verbatim>\<open>WsHandler\<close> is a function value: \<^verbatim>\<open>nil\<close>, a function the caller supplied (named by
  a number), or the closure \<^verbatim>\<open>tempHandler\<close> that \<^verbatim>\<open>authenticate\<close> builds.
\<close>

datatype WsHandler = NilHandler | UserHandler nat | TempHandler

type_synonym conn_id = nat

datatype goroutine = ReadMessages | KeepAlive

text \<open>
  What the client does to the outside world, in program order: dialling, writes to and
  the closing of a connection, goroutines started, sleeps, and calls of the caller's
  handlers. Log output is left out.
\<close>

datatype event =
    EvDial string
  | EvWriteJSON conn_id json
  | EvWriteClose conn_id
  | EvConnClose conn_id
  | EvGo goroutine
  | EvSleep Duration
  | EvHandler nat string
  | EvErrHandler nat error

text \<open>
  The fields of \<^verbatim>\<open>WsClient\<close>. The channel \<^verbatim>\<open>done\<close> is only ever closed, so its state is
  whether it has been closed. \<open>errHandler\<close> is \<^verbatim>\<open>nil\<close> or a function of the caller.
  \<open>trace\<close> is not a field of the struct: it records the events so far. The mutex and the
  logger are left out.
\<close>

record WsClient =
  APIKey :: string
  APISecret :: string
  BaseURL :: string
  LocalAddr :: string
  conn :: "conn_id option"
  isConnected :: bool
  isAuthenticated :: bool
  handlers :: "string \<rightharpoonup> WsHandler"
  errHandler :: "nat option"
  done_closed :: bool
  reconnect :: bool
  reconnectDelay :: Duration
  trace :: "event list"

definition BaseWSMainURL :: string where
  "BaseWSMainURL = ''wss://example.com/v1/ws''"

definition getWSEndpoint :: string where
  "getWSEndpoint = BaseWSMainURL"

definition NewWsClient :: "string \<Rightarrow> string \<Rightarrow> WsClient" where
  "NewWsClient apiKey apiSecret =
     \<lparr> APIKey = apiKey, APISecret = apiSecret, BaseURL = getWSEndpoint, LocalAddr = [],
       conn = None, isConnected = False, isAuthenticated = False, handlers = Map.empty,
       errHandler = None, done_closed = False, reconnect = True,
       reconnectDelay = 5 * Second, trace = [] \<rparr>"

definition NewWsClientWithLocalAddr :: "string \<Rightarrow> string \<Rightarrow> string \<Rightarrow> WsClient" where
  "NewWsClientWithLocalAddr apiKey apiSecret localAddr =
     (NewWsClient apiKey apiSecret) \<lparr> LocalAddr := localAddr \<rparr>"

definition emit :: "event \<Rightarrow> WsClient \<Rightarrow> WsClient" where
  "emit e c = c \<lparr> trace := trace c @ [e] \<rparr>"

definition IsConnected :: "WsClient \<Rightarrow> bool" where
  "IsConnected c = isConnected c"

definition IsAuthenticated :: "WsClient \<Rightarrow> bool" where
  "IsAuthenticated c = isAuthenticated c"

subsection \<open>The signers\<close>

text \<open>\<^verbatim>\<open>(*WsClient).sign\<close>, websocket.go.\<close>

definition sign :: "hmac \<Rightarrow> WsClient \<Rightarrow> string \<Rightarrow> string" where
  "sign H c payload = hex_EncodeToString (H (APISecret c) payload)"

text \<open>The REST client of client.go and its \<^verbatim>\<open>(*Client).sign\<close>.\<close>

record Client =
  Client_APIKey :: string
  Client_APISecret :: string
  Client_BaseURL :: string
  Client_UserAgent :: string
  Client_Debug :: bool

definition Client_sign :: "hmac \<Rightarrow> Client \<Rightarrow> string \<Rightarrow> string" where
  "Client_sign H c payload = hex_EncodeToString (H (Client_APISecret c) payload)"

subsection \<open>Sending\<close>

text \<open>
  \<^verbatim>\<open>SendJSON\<close>. \<open>wr\<close> is what \<^verbatim>\<open>conn.WriteJSON(v)\<close> returns; the call itself is recorded
  in the trace whatever it returns.
\<close>

definition SendJSON :: "error option \<Rightarrow> WsClient \<Rightarrow> json \<Rightarrow> error option \<times> WsClient" where
  "SendJSON wr c v =
     (case conn c of
        None \<Rightarrow> (Some NotConnected, c)
      | Some k \<Rightarrow>
          if \<not> isConnected c then (Some NotConnected, c)
          else (wr, emit (EvWriteJSON k v) c))"

definition pingMsg :: json where
  "pingMsg = JObject [(''op'', JString ''ping'')]"

definition SendPing :: "error option \<Rightarrow> WsClient \<Rightarrow> error option \<times> WsClient" where
  "SendPing wr c = SendJSON wr c pingMsg"

subsection \<open>Authentication\<close>

text \<open>The first lines of \<^verbatim>\<open>authenticate\<close>: expiry, signed payload and the frame.\<close>

definition auth_expires :: "Time \<Rightarrow> int" where
  "auth_expires now = Unix (Add now (5 * Minute))"

definition auth_payload :: "Time \<Rightarrow> string" where
  "auth_payload now = ''GET/realtime'' @ Sprintf_d (auth_expires now)"

definition authMsg :: "hmac \<Rightarrow> WsClient \<Rightarrow> Time \<Rightarrow> json" where
  "authMsg H c now =
     JObject [(''op'', JString ''auth''),
              (''args'', JArray [JString (APIKey c),
                                 JString (Sprintf_d (auth_expires now)),
                                 JString (sign H c (auth_payload now))])]"

text \<open>
  What the wait in \<^verbatim>\<open>authenticate\<close> ends with: the read loop hands \<^verbatim>\<open>tempHandler\<close> an
  \<^verbatim>\<open>auth\<close> frame with \<^verbatim>\<open>success\<close> true or false (with its message), or ten seconds pass.
\<close>

datatype auth_reply = ReplySuccess | ReplyFailure string | NoReply

text \<open>
  \<^verbatim>\<open>Connect\<close> starts the read loop before it authenticates, and the two run side by side.
  What the read loop does meanwhile, beyond handing over the reply, is whether and when
  it ends (its read fails, or it finds \<^verbatim>\<open>done\<close> closed) and clears the two flags in its
  deferred function: not before \<^verbatim>\<open>Connect\<close> returns; before the auth frame is sent; or
  after the wait of \<^verbatim>\<open>authenticate\<close> is over and before \<^verbatim>\<open>Connect\<close> cleans up or returns.
  The error is the one \<^verbatim>\<open>ReadMessage\<close> returned.
\<close>

datatype reader_exit = ReaderStays | EndsBeforeSend error | EndsBeforeReturn error

text \<open>
  The environment of one call of \<^verbatim>\<open>Connect\<close>: the clock when the auth frame is built, what
  \<^verbatim>\<open>Dial\<close> returns, what \<^verbatim>\<open>WriteJSON\<close> returns for the auth frame, how the wait ends, when
  the read loop ends, what \<^verbatim>\<open>conn.Close()\<close> returns if \<^verbatim>\<open>Disconnect\<close> is called, and the
  package variable \<^verbatim>\<open>WebsocketKeepalive\<close>.
\<close>

record connect_env =
  now :: Time
  dial :: "error + conn_id"
  auth_write :: "error option"
  reply :: auth_reply
  reader_exit :: reader_exit
  conn_close :: "error option"
  WebsocketKeepalive :: bool

text \<open>
  The reply that reaches \<^verbatim>\<open>tempHandler\<close>. The handler is called by the read loop only, and
  a read loop that finds \<^verbatim>\<open>done\<close> closed returns at its first \<^verbatim>\<open>select\<close> without reading:
  once \<^verbatim>\<open>done\<close> is closed no reply is handed over and the wait times out.
\<close>

definition delivered :: "connect_env \<Rightarrow> WsClient \<Rightarrow> auth_reply" where
  "delivered env c = (if done_closed c then NoReply else reply env)"

text \<open>
  \<^verbatim>\<open>authenticate\<close>: the frame is sent, the temporary handler is stored under \<^verbatim>\<open>__auth__\<close>,
  the wait ends with the reply delivered (on success \<^verbatim>\<open>tempHandler\<close> has set
  \<open>isAuthenticated\<close>) or with the timeout, and the handler is deleted.
\<close>

definition authenticate :: "hmac \<Rightarrow> connect_env \<Rightarrow> WsClient \<Rightarrow> error option \<times> WsClient" where
  "authenticate H env c =
     (case SendJSON (auth_write env) c (authMsg H c (now env)) of
        (Some e, c1) \<Rightarrow> (Some e, c1)
      | (None, c1) \<Rightarrow>
          let c2 = c1 \<lparr> handlers := (handlers c1)(''__auth__'' \<mapsto> TempHandler) \<rparr> in
          (case delivered env c2 of
             ReplySuccess \<Rightarrow>
               let c3 = c2 \<lparr> isAuthenticated := True \<rparr> in
               (None, c3 \<lparr> handlers := (handlers c3)(''__auth__'' := None) \<rparr>)
           | ReplyFailure m \<Rightarrow>
               (Some (AuthRejected m), c2 \<lparr> handlers := (handlers c2)(''__auth__'' := None) \<rparr>)
           | NoReply \<Rightarrow>
               (Some AuthenticationTimeout,
                c2 \<lparr> handlers := (handlers c2)(''__auth__'' := None) \<rparr>)))"

subsection \<open>Disconnect and Connect\<close>

text \<open>
  \<^verbatim>\<open>Disconnect\<close>; the whole body runs under the lock. \<open>cl\<close> is what \<^verbatim>\<open>conn.Close()\<close>
  returns. An error of the close frame's \<^verbatim>\<open>WriteMessage\<close> is only logged.
\<close>

definition Disconnect :: "error option \<Rightarrow> WsClient \<Rightarrow> error option outcome \<times> WsClient" where
  "Disconnect cl c =
     (if \<not> isConnected c then (Returned None, c)
      else
        let c1 = c \<lparr> reconnect := False \<rparr> in
        if done_closed c1 then (Panic, c1)
        else
          let c2 = c1 \<lparr> done_closed := True \<rparr> in
          (case conn c2 of
             None \<Rightarrow>
               (Returned None,
                c2 \<lparr> isConnected := False, isAuthenticated := False, conn := None \<rparr>)
           | Some k \<Rightarrow>
               let c3 = emit (EvConnClose k) (emit (EvWriteClose k) c2) in
               (case cl of
                  Some e \<Rightarrow> (Returned (Some (FailedToCloseConnection e)), c3)
                | None \<Rightarrow>
                    (Returned None,
                     c3 \<lparr> isConnected := False, isAuthenticated := False, conn := None \<rparr>))))"

text \<open>
  The critical section of the deferred function of \<^verbatim>\<open>readMessages\<close>: both flags are
  cleared under the lock.
\<close>

definition readMessages_teardown :: "WsClient \<Rightarrow> WsClient" where
  "readMessages_teardown c = c \<lparr> isConnected := False, isAuthenticated := False \<rparr>"

text \<open>
  The end of a read loop up to that critical section. With \<^verbatim>\<open>done\<close> closed the loop
  returns at its \<^verbatim>\<open>select\<close>; otherwise it ends because \<^verbatim>\<open>ReadMessage\<close> failed, and the error
  is handed to the error handler, if there is one, before the loop returns.
\<close>

definition reader_ends :: "error \<Rightarrow> WsClient \<Rightarrow> WsClient" where
  "reader_ends e c =
     readMessages_teardown
       (if done_closed c then c
        else (case errHandler c of None \<Rightarrow> c | Some n \<Rightarrow> emit (EvErrHandler n e) c))"

text \<open>
  The read loop beside \<^verbatim>\<open>Connect\<close>, at the two places where its end can come in. A read
  loop started with \<^verbatim>\<open>done\<close> closed ends at once, so when the environment lets it stay it
  has all the same ended by the time the ten seconds of the wait are over.
\<close>

definition reader_before_send :: "connect_env \<Rightarrow> WsClient \<Rightarrow> WsClient" where
  "reader_before_send env c =
     (case reader_exit env of
        EndsBeforeSend e \<Rightarrow> reader_ends e c
      | _ \<Rightarrow> c)"

definition reader_before_return :: "connect_env \<Rightarrow> WsClient \<Rightarrow> WsClient" where
  "reader_before_return env c =
     (case reader_exit env of
        EndsBeforeReturn e \<Rightarrow> reader_ends e c
      | ReaderStays \<Rightarrow>
          if done_closed c \<and> auth_write env = None then readMessages_teardown c else c
      | EndsBeforeSend e \<Rightarrow> c)"

text \<open>
  \<^verbatim>\<open>Connect\<close>. The dialer's configuration (handshake timeout, binding to \<open>LocalAddr\<close>)
  changes how the dial is made, not what the client does with its result, which the
  environment gives. The value \<^verbatim>\<open>Disconnect\<close> returns after a failed authentication is
  dropped by the code. What the read loop does once it has ended (the sleep and the
  reconnection attempt of its deferred function) comes after \<^verbatim>\<open>Connect\<close> has returned and
  is not part of this function; a read loop that ends in the middle of the wait, so that
  its reconnection attempt overlaps this call, is not described by it.
\<close>

definition Connect :: "hmac \<Rightarrow> connect_env \<Rightarrow> WsClient \<Rightarrow> error option outcome \<times> WsClient" where
  "Connect H env c =
     (if isConnected c then (Returned (Some AlreadyConnected), c)
      else
        let c1 = emit (EvDial (BaseURL c)) c in
        (case dial env of
           Inl e \<Rightarrow> (Returned (Some (FailedToConnect e)), c1)
         | Inr k \<Rightarrow>
             let c2 = c1 \<lparr> conn := Some k, isConnected := True \<rparr>;
                 c3 = reader_before_send env (emit (EvGo ReadMessages) c2)
             in
             (case authenticate H env c3 of
                (Some e, c4) \<Rightarrow>
                  (case Disconnect (conn_close env) (reader_before_return env c4) of
                     (Panic, c5) \<Rightarrow> (Panic, c5)
                   | (Returned r, c5) \<Rightarrow> (Returned (Some (AuthenticationFailed e)), c5))
              | (None, c4) \<Rightarrow>
                  if WebsocketKeepalive env
                  then (Returned None, emit (EvGo KeepAlive) (reader_before_return env c4))
                  else (Returned None, reader_before_return env c4))))"

subsection \<open>Subscriptions\<close>

definition subscribeMsg :: "string \<Rightarrow> json" where
  "subscribeMsg topic =
     JObject [(''op'', JString ''subscribe''), (''args'', JArray [JString topic])]"

text \<open>The second critical section of \<^verbatim>\<open>Subscribe\<close>: the handler is stored.\<close>

definition register :: "string \<Rightarrow> WsHandler \<Rightarrow> WsClient \<Rightarrow> WsClient" where
  "register topic handler c = c \<lparr> handlers := (handlers c)(topic \<mapsto> handler) \<rparr>"

definition Subscribe ::
  "error option \<Rightarrow> WsClient \<Rightarrow> string \<Rightarrow> WsHandler \<Rightarrow> error option \<times> WsClient" where
  "Subscribe wr c topic handler =
     (if \<not> isAuthenticated c then (Some NotAuthenticated, c)
      else SendJSON wr (register topic handler c) (subscribeMsg topic))"

definition Unsubscribe :: "WsClient \<Rightarrow> string \<Rightarrow> error option \<times> WsClient" where
  "Unsubscribe c topic = (None, c \<lparr> handlers := (handlers c)(topic := None) \<rparr>)"

definition SubscribeExecutionReport ::
  "error option \<Rightarrow> WsClient \<Rightarrow> WsHandler \<Rightarrow> error option \<times> WsClient" where
  "SubscribeExecutionReport wr c handler = Subscribe wr c ''execution_report'' handler"

definition SubscribeAnalytics ::
  "error option \<Rightarrow> WsClient \<Rightarrow> WsHandler \<Rightarrow> error option \<times> WsClient" where
  "SubscribeAnalytics wr c handler = Subscribe wr c ''analytics'' handler"

definition SetErrorHandler :: "WsClient \<Rightarrow> nat option \<Rightarrow> WsClient" where
  "SetErrorHandler c handler = c \<lparr> errHandler := handler \<rparr>"

subsection \<open>The read loop\<close>

text \<open>
  The test \<^verbatim>\<open>exists && handler != nil\<close> on the result of a lookup in \<open>handlers\<close>.
\<close>

definition callable :: "WsHandler option \<Rightarrow> bool" where
  "callable h = (h \<noteq> None \<and> h \<noteq> Some NilHandler)"

text \<open>
  The call \<^verbatim>\<open>handler(message)\<close>. A handler of the caller is opaque: the call is recorded
  (the model takes it that the handler does not call back into the client).
  \<^verbatim>\<open>tempHandler\<close> decodes the same bytes into the same envelope type again and, for the
  operation \<^verbatim>\<open>auth\<close> with \<^verbatim>\<open>success\<close> true, sets \<open>isAuthenticated\<close> under the lock.
\<close>

definition call_handler :: "WsHandler option \<Rightarrow> string \<Rightarrow> WsResponse \<Rightarrow> WsClient \<Rightarrow> WsClient" where
  "call_handler h message resp c =
     (case h of
        Some (UserHandler n) \<Rightarrow> emit (EvHandler n message) c
      | Some TempHandler \<Rightarrow>
          if Op resp = ''auth'' \<and> Success resp then c \<lparr> isAuthenticated := True \<rparr> else c
      | _ \<Rightarrow> c)"

text \<open>
  The body of the loop of \<^verbatim>\<open>readMessages\<close> after a frame has been decoded: the dispatch on
  the operation name, branch by branch as in the source.
\<close>

definition dispatch :: "WsClient \<Rightarrow> string \<Rightarrow> WsResponse \<Rightarrow> WsClient" where
  "dispatch c message wsResp =
     (if Op wsResp = ''auth'' then
        (if callable (handlers c ''__auth__'')
         then call_handler (handlers c ''__auth__'') message wsResp c else c)
      else if Op wsResp = ''ping'' then c
      else if Op wsResp = ''subscribe'' then c
      else if Op wsResp = ''execution_report'' then
        (let c1 = (if callable (handlers c ''execution_report'')
                   then call_handler (handlers c ''execution_report'') message wsResp c
                   else c)
         in if callable (handlers c1 ''*'')
            then call_handler (handlers c1 ''*'') message wsResp c1 else c1)
      else if callable (handlers c (Op wsResp))
        then call_handler (handlers c (Op wsResp)) message wsResp c
      else if callable (handlers c ''*'')
        then call_handler (handlers c ''*'') message wsResp c
      else c)"

text \<open>What \<^verbatim>\<open>conn.ReadMessage()\<close> returns.\<close>

datatype read_result = Received frame | ReadError error

text \<open>
  The deferred function of \<^verbatim>\<open>readMessages\<close>, run when the loop ends: both flags are
  cleared under the lock; if \<open>reconnect\<close> is set, the goroutine sleeps and calls
  \<^verbatim>\<open>Connect\<close> once, handing an error to the error handler.
\<close>

definition readMessages_deferred ::
  "hmac \<Rightarrow> connect_env \<Rightarrow> WsClient \<Rightarrow> unit outcome \<times> WsClient" where
  "readMessages_deferred H env c =
     (let c1 = readMessages_teardown c in
      if reconnect c1 then
        (case Connect H env (emit (EvSleep (reconnectDelay c1)) c1) of
           (Panic, c2) \<Rightarrow> (Panic, c2)
         | (Returned None, c2) \<Rightarrow> (Returned (), c2)
         | (Returned (Some err), c2) \<Rightarrow>
             (Returned (),
              case errHandler c2 of None \<Rightarrow> c2 | Some n \<Rightarrow> emit (EvErrHandler n err) c2))
      else (Returned (), c1))"

subsection \<open>Successive read loops\<close>

text \<open>
  The events a step added to the trace, and whether it started a read loop.
\<close>

definition new_events :: "WsClient \<Rightarrow> WsClient \<Rightarrow> event list" where
  "new_events c c' = drop (length (trace c)) (trace c')"

definition started_reader :: "WsClient \<Rightarrow> WsClient \<Rightarrow> bool" where
  "started_reader c c' = (EvGo ReadMessages \<in> set (new_events c c'))"

text \<open>
  The only caller of \<^verbatim>\<open>Connect\<close> inside the client is the deferred function of a read loop,
  and the only place a read loop is started is \<^verbatim>\<open>Connect\<close>. \<open>reconnect_chain\<close> follows this
  chain while the caller stays away: the running read loop ends and its deferred function
  runs in the first environment; if that call started a new read loop, this loop ends in
  turn (during that call of \<^verbatim>\<open>Connect\<close>, as its environment says, or later) and its
  deferred function runs in the next environment; if no read loop was started, no
  goroutine is left that would call \<^verbatim>\<open>Connect\<close>, and the chain is over. Where the loop
  ended during \<^verbatim>\<open>Connect\<close> the flags are already cleared and clearing them again changes
  nothing. The call of the error handler for the read error that ends a loop later on
  is left out.
\<close>

fun reconnect_chain :: "hmac \<Rightarrow> connect_env list \<Rightarrow> WsClient \<Rightarrow> unit outcome \<times> WsClient" where
  "reconnect_chain H [] c = (Returned (), c)"
| "reconnect_chain H (env # envs) c =
     (case readMessages_deferred H env c of
        (Panic, c') \<Rightarrow> (Panic, c')
      | (Returned u, c') \<Rightarrow>
          if started_reader c c' then reconnect_chain H envs c' else (Returned (), c'))"

definition dials :: "WsClient \<Rightarrow> nat" where
  "dials c = length (filter (\<lambda>e. case e of EvDial u \<Rightarrow> True | _ \<Rightarrow> False) (trace c))"

subsection \<open>The handshake, critical section by critical section\<close>

text \<open>
  \<^verbatim>\<open>Connect\<close> releases the lock between its steps, the read loop it starts runs beside it,
  and \<^verbatim>\<open>Disconnect\<close> may be called from any goroutine. This part follows one call of
  \<^verbatim>\<open>Connect\<close> on goroutine M, the read loop R that it starts, and calls of \<^verbatim>\<open>Disconnect\<close>
  from a third goroutine, one critical section (or one blocking call) at a time. M and R
  move in program order; which of them moves next, and what the outside world answers,
  is given by a label. R is followed up to the critical section of its deferred
  function; the sleep and the reconnection attempt that follow when \<open>reconnect\<close> is set
  are not.
\<close>

datatype caller_pc =
    M_start
  | M_dial
  | M_set conn_id
  | M_go
  | M_send
  | M_register
  | M_wait
  | M_delete "error option"
  | M_cleanup error
  | M_keepalive
  | M_returned "error option"

text \<open>
  \<open>R_reading k\<close>: R is inside \<^verbatim>\<open>ReadMessage\<close> on connection \<open>k\<close>. \<open>R_deferred p\<close>: the loop
  has ended and the deferred function is about to run; \<open>p\<close> says that it runs while a
  panic unwinds.
\<close>

datatype reader_pc =
    R_none
  | R_select
  | R_read
  | R_reading conn_id
  | R_lookup string WsResponse
  | R_call "WsHandler option" string WsResponse
  | R_blocked
  | R_deferred bool
  | R_cleared

text \<open>
  \<open>authResponse\<close> is the channel of capacity one that \<^verbatim>\<open>authenticate\<close> makes: empty, or
  holding the value \<^verbatim>\<open>tempHandler\<close> sent.
\<close>

record config =
  client :: WsClient
  caller :: caller_pc
  reader :: reader_pc
  authResponse :: "error option option"
  panicked :: bool

definition initial_config :: "string \<Rightarrow> string \<Rightarrow> config" where
  "initial_config apiKey apiSecret =
     \<lparr> client = NewWsClient apiKey apiSecret, caller = M_start, reader = R_none,
       authResponse = None, panicked = False \<rparr>"

datatype label =
    Connect_check
  | Connect_dial "error + conn_id"
  | Connect_set
  | Connect_go
  | Auth_send Time "error option"
  | Auth_register
  | Auth_receive
  | Auth_timeout
  | Auth_delete
  | Connect_cleanup "error option"
  | Connect_keepalive bool
  | Read_select
  | Read_begin
  | Read_return read_result
  | Read_lookup
  | Read_call
  | Read_deferred
  | Other_Disconnect "error option"

text \<open>
  One step. \<open>None\<close>: the goroutine named by the label is not at that point of its program
  (or is blocked there), or the program has panicked.
  \<^item> \<open>Connect_check\<close>: the test of \<open>isConnected\<close> under the lock that opens \<^verbatim>\<open>Connect\<close>.
  \<^item> \<open>Connect_dial\<close>: \<^verbatim>\<open>dialer.Dial\<close>. \<open>Connect_set\<close>: \<open>conn\<close> and \<open>isConnected\<close> are set
    under the lock. \<open>Connect_go\<close>: \<^verbatim>\<open>go c.readMessages()\<close>.
  \<^item> \<open>Auth_send\<close>: the frame is built and \<^verbatim>\<open>SendJSON\<close> runs. \<open>Auth_register\<close>:
    \<^verbatim>\<open>tempHandler\<close> is stored under the lock. \<open>Auth_receive\<close> and \<open>Auth_timeout\<close>: the two
    cases of the \<^verbatim>\<open>select\<close>. \<open>Auth_delete\<close>: the handler is deleted under the lock and
    \<^verbatim>\<open>authenticate\<close> returns.
  \<^item> \<open>Connect_cleanup\<close>: \<^verbatim>\<open>Disconnect\<close> after a failed authentication, and the return.
    \<open>Connect_keepalive\<close>: the keepalive goroutine is started and \<^verbatim>\<open>Connect\<close> returns nil.
  \<^item> \<open>Read_select\<close>: the \<^verbatim>\<open>select\<close> on \<^verbatim>\<open>done\<close>. \<open>Read_begin\<close>: the call
    \<^verbatim>\<open>c.conn.ReadMessage()\<close> is made on the connection the field holds at that moment; on
    nil it panics, and the deferred function runs while the panic unwinds.
    \<open>Read_return\<close>: \<^verbatim>\<open>ReadMessage\<close> returns. An error goes to the error handler and ends
    the loop; a frame is decoded, and a frame of another operation than \<^verbatim>\<open>auth\<close> is
    dispatched at once.
  \<^item> \<open>Read_lookup\<close>: the lookup of \<^verbatim>\<open>__auth__\<close> under the read lock. \<open>Read_call\<close>: the call
    \<^verbatim>\<open>handler(message)\<close>; \<^verbatim>\<open>tempHandler\<close> sets the flag under the lock and sends on the
    channel, which blocks when the channel is full.
  \<^item> \<open>Read_deferred\<close>: the critical section of the deferred function. When it ran
    for a panic and \<open>reconnect\<close> is not set, the deferred function is over and the panic
    ends the program.
  \<^item> \<open>Other_Disconnect\<close>: \<^verbatim>\<open>Disconnect\<close> called from another goroutine; its whole body is
    one critical section.
\<close>

fun step :: "hmac \<Rightarrow> label \<Rightarrow> config \<Rightarrow> config option" where
  "step H Connect_check s =
     (if panicked s \<or> caller s \<noteq> M_start then None
      else if isConnected (client s) then Some (s \<lparr> caller := M_returned (Some AlreadyConnected) \<rparr>)
      else Some (s \<lparr> caller := M_dial \<rparr>))"
| "step H (Connect_dial d) s =
     (if panicked s \<or> caller s \<noteq> M_dial then None
      else
        (case d of
           Inl e \<Rightarrow>
             Some (s \<lparr> client := emit (EvDial (BaseURL (client s))) (client s),
                      caller := M_returned (Some (FailedToConnect e)) \<rparr>)
         | Inr k \<Rightarrow>
             Some (s \<lparr> client := emit (EvDial (BaseURL (client s))) (client s),
                      caller := M_set k \<rparr>)))"
| "step H Connect_set s =
     (if panicked s then None
      else
        (case caller s of
           M_set k \<Rightarrow>
             Some (s \<lparr> client := (client s) \<lparr> conn := Some k, isConnected := True \<rparr>,
                      caller := M_go \<rparr>)
         | _ \<Rightarrow> None))"
| "step H Connect_go s =
     (if panicked s \<or> caller s \<noteq> M_go \<or> reader s \<noteq> R_none then None
      else Some (s \<lparr> client := emit (EvGo ReadMessages) (client s),
                    caller := M_send, reader := R_select \<rparr>))"
| "step H (Auth_send t wr) s =
     (if panicked s \<or> caller s \<noteq> M_send then None
      else
        (case SendJSON wr (client s) (authMsg H (client s) t) of
           (Some e, c1) \<Rightarrow> Some (s \<lparr> client := c1, caller := M_cleanup e \<rparr>)
         | (None, c1) \<Rightarrow> Some (s \<lparr> client := c1, caller := M_register, authResponse := None \<rparr>)))"
| "step H Auth_register s =
     (if panicked s \<or> caller s \<noteq> M_register then None
      else Some (s \<lparr> client := register ''__auth__'' TempHandler (client s), caller := M_wait \<rparr>))"
| "step H Auth_receive s =
     (if panicked s \<or> caller s \<noteq> M_wait then None
      else
        (case authResponse s of
           None \<Rightarrow> None
         | Some r \<Rightarrow> Some (s \<lparr> caller := M_delete r, authResponse := None \<rparr>)))"
| "step H Auth_timeout s =
     (if panicked s \<or> caller s \<noteq> M_wait then None
      else Some (s \<lparr> caller := M_delete (Some AuthenticationTimeout) \<rparr>))"
| "step H Auth_delete s =
     (if panicked s then None
      else
        (case caller s of
           M_delete r \<Rightarrow>
             Some (s \<lparr> client := (client s) \<lparr> handlers := (handlers (client s))(''__auth__'' := None) \<rparr>,
                      caller := (case r of None \<Rightarrow> M_keepalive | Some e \<Rightarrow> M_cleanup e) \<rparr>)
         | _ \<Rightarrow> None))"
| "step H (Connect_cleanup cl) s =
     (if panicked s then None
      else
        (case caller s of
           M_cleanup e \<Rightarrow>
             (case Disconnect cl (client s) of
                (Panic, c') \<Rightarrow> Some (s \<lparr> client := c', panicked := True \<rparr>)
              | (Returned r, c') \<Rightarrow>
                  Some (s \<lparr> client := c', caller := M_returned (Some (AuthenticationFailed e)) \<rparr>))
         | _ \<Rightarrow> None))"
| "step H (Connect_keepalive b) s =
     (if panicked s \<or> caller s \<noteq> M_keepalive then None
      else Some (s \<lparr> client := (if b then emit (EvGo KeepAlive) (client s) else client s),
                    caller := M_returned None \<rparr>))"
| "step H Read_select s =
     (if panicked s \<or> reader s \<noteq> R_select then None
      else Some (s \<lparr> reader := (if done_closed (client s) then R_deferred False else R_read) \<rparr>))"
| "step H Read_begin s =
     (if panicked s \<or> reader s \<noteq> R_read then None
      else
        (case conn (client s) of
           None \<Rightarrow> Some (s \<lparr> reader := R_deferred True \<rparr>)
         | Some k \<Rightarrow> Some (s \<lparr> reader := R_reading k \<rparr>)))"
| "step H (Read_return rr) s =
     (if panicked s then None
      else
        (case reader s of
           R_reading k \<Rightarrow>
             (case rr of
                ReadError e \<Rightarrow>
                  Some (s \<lparr> client := (case errHandler (client s) of
                                         None \<Rightarrow> client s
                                       | Some n \<Rightarrow> emit (EvErrHandler n e) (client s)),
                           reader := R_deferred False \<rparr>)
              | Received f \<Rightarrow>
                  (case decoded f of
                     None \<Rightarrow> Some (s \<lparr> reader := R_select \<rparr>)
                   | Some wsResp \<Rightarrow>
                       if Op wsResp = ''auth''
                       then Some (s \<lparr> reader := R_lookup (raw f) wsResp \<rparr>)
                       else Some (s \<lparr> client := dispatch (client s) (raw f) wsResp,
                                     reader := R_select \<rparr>)))
         | _ \<Rightarrow> None))"
| "step H Read_lookup s =
     (if panicked s then None
      else
        (case reader s of
           R_lookup m wsResp \<Rightarrow>
             Some (s \<lparr> reader := (if callable (handlers (client s) ''__auth__'')
                                  then R_call (handlers (client s) ''__auth__'') m wsResp
                                  else R_select) \<rparr>)
         | _ \<Rightarrow> None))"
| "step H Read_call s =
     (if panicked s then None
      else
        (case reader s of
           R_call h m wsResp \<Rightarrow>
             if h = Some TempHandler then
               (if authResponse s = None then
                  Some (s \<lparr> client := call_handler h m wsResp (client s),
                           authResponse :=
                             Some (if Success wsResp then None
                                   else Some (AuthRejected (Message wsResp))),
                           reader := R_select \<rparr>)
                else Some (s \<lparr> client := call_handler h m wsResp (client s),
                              reader := R_blocked \<rparr>))
             else Some (s \<lparr> client := call_handler h m wsResp (client s), reader := R_select \<rparr>)
         | _ \<Rightarrow> None))"
| "step H Read_deferred s =
     (if panicked s then None
      else
        (case reader s of
           R_deferred p \<Rightarrow>
             Some (s \<lparr> client := readMessages_teardown (client s), reader := R_cleared,
                      panicked := (p \<and> \<not> reconnect (client s)) \<rparr>)
         | _ \<Rightarrow> None))"
| "step H (Other_Disconnect cl) s =
     (if panicked s then None
      else
        (case Disconnect cl (client s) of
           (Panic, c') \<Rightarrow> Some (s \<lparr> client := c', panicked := True \<rparr>)
         | (Returned r, c') \<Rightarrow> Some (s \<lparr> client := c' \<rparr>)))"

fun run :: "hmac \<Rightarrow> label list \<Rightarrow> config \<Rightarrow> config option" where
  "run H [] s = Some s"
| "run H (l # ls) s = (case step H l s of None \<Rightarrow> None | Some s' \<Rightarrow> run H ls s')"

text \<open>
  The states of the client that some schedule of a client made by \<^verbatim>\<open>NewWsClient\<close> goes
  through.
\<close>

definition interleaved_reachable :: "hmac \<Rightarrow> WsClient \<Rightarrow> bool" where
  "interleaved_reachable H c =
     (\<exists>ls apiKey apiSecret s. run H ls (initial_config apiKey apiSecret) = Some s \<and> client s = c)"

subsection \<open>One call of Subscribe, critical section by critical section\<close>

text \<open>
  \<^verbatim>\<open>Subscribe\<close> takes the lock three times: for the test of \<open>isAuthenticated\<close>, for the store
  into \<open>handlers\<close>, and (inside \<^verbatim>\<open>SendJSON\<close>) for the write. \<open>Subscribe_step\<close> moves one call
  from one of these points to the next; a call that has returned stays where it is. The
  state after \<open>n\<close> steps of a call begun in client \<open>c\<close> is \<open>Subscribe_after n\<close>.
\<close>

datatype subscribe_pc = S_check | S_register | S_send | S_returned "error option"

fun Subscribe_step ::
  "error option \<Rightarrow> string \<Rightarrow> WsHandler \<Rightarrow> subscribe_pc \<times> WsClient \<Rightarrow> subscribe_pc \<times> WsClient" where
  "Subscribe_step wr topic handler (S_check, c) =
     (if \<not> isAuthenticated c then (S_returned (Some NotAuthenticated), c)
      else (S_register, c))"
| "Subscribe_step wr topic handler (S_register, c) = (S_send, register topic handler c)"
| "Subscribe_step wr topic handler (S_send, c) =
     (case SendJSON wr c (subscribeMsg topic) of (r, c') \<Rightarrow> (S_returned r, c'))"
| "Subscribe_step wr topic handler (S_returned r, c) = (S_returned r, c)"


subsection \<open>Values for examples\<close>

text \<open>
  A keyed hash to run examples with. No statement below depends on what it
  returns: the theorems hold for every keyed hash.
\<close>

definition example_hmac :: hmac where
  "example_hmac key msg = replicate 32 (CHR 0x00)"

definition example_env :: connect_env where
  "example_env =
     \<lparr> now = 1700000000 * Second, dial = Inr 1, auth_write = None, reply = ReplySuccess,
       reader_exit = ReaderStays, conn_close = None, WebsocketKeepalive = True \<rparr>"

text \<open>A client after a \<^verbatim>\<open>Connect\<close> that succeeded.\<close>

definition connected_client :: WsClient where
  "connected_client = snd (Connect example_hmac example_env (NewWsClient ''key'' ''secret''))"

text \<open>
  Environments in which the server rejects the signature, in which it rejects the
  signature and then closes the socket, and in which the dial fails.
\<close>

definition rejecting_env :: connect_env where
  "rejecting_env = example_env \<lparr> reply := ReplyFailure ''invalid signature'' \<rparr>"

definition closing_env :: connect_env where
  "closing_env = rejecting_env \<lparr> reader_exit := EndsBeforeReturn (TransportError ''EOF'') \<rparr>"


text \<open>The client at the point where \<^verbatim>\<open>Connect\<close> calls \<^verbatim>\<open>authenticate\<close>.\<close>

definition dialled_client :: WsClient where
  "dialled_client = (NewWsClient ''key'' ''secret'') \<lparr> conn := Some 1, isConnected := True \<rparr>"

text \<open>
  Schedules of the handshake. In \<open>race_schedule\<close> the server accepts the signature; the
  read loop has decoded the reply and looked \<^verbatim>\<open>tempHandler\<close> up when another goroutine
  calls \<^verbatim>\<open>Disconnect\<close>; then the read loop calls the handler it holds. In
  \<open>timeout_schedule\<close> the ten seconds of \<^verbatim>\<open>authenticate\<close> run out at that moment instead,
  and \<^verbatim>\<open>Connect\<close> itself disconnects. In \<open>rejected_schedule\<close> the server rejects the
  signature and keeps the socket open; in \<open>closing_schedule\<close> it closes the socket after
  the rejection, and the read loop has ended before \<^verbatim>\<open>Connect\<close> cleans up.
\<close>

definition auth_accepted :: read_result where
  "auth_accepted =
     Received \<lparr> raw = ''auth reply'',
                decoded = Some \<lparr> Op = ''auth'', Success = True, Message = ''{}'' \<rparr> \<rparr>"

definition auth_rejected :: read_result where
  "auth_rejected =
     Received \<lparr> raw = ''auth reply'',
                decoded = Some \<lparr> Op = ''auth'', Success = False,
                                 Message = ''invalid signature'' \<rparr> \<rparr>"

definition handshake_prefix :: "label list" where
  "handshake_prefix =
     [Connect_check, Connect_dial (Inr 1), Connect_set, Connect_go,
      Auth_send (1700000000 * Second) None, Auth_register,
      Read_select, Read_begin]"

definition race_schedule :: "label list" where
  "race_schedule =
     handshake_prefix @
     [Read_return auth_accepted, Read_lookup,
      Other_Disconnect None,
      Read_call]"

definition timeout_schedule :: "label list" where
  "timeout_schedule =
     handshake_prefix @
     [Read_return auth_accepted, Read_lookup,
      Auth_timeout, Auth_delete, Connect_cleanup None,
      Read_call]"

definition rejected_schedule :: "label list" where
  "rejected_schedule =
     handshake_prefix @
     [Read_return auth_rejected, Read_lookup, Read_call, Read_select, Read_begin,
      Auth_receive, Auth_delete, Connect_cleanup None]"

definition closing_schedule :: "label list" where
  "closing_schedule =
     handshake_prefix @
     [Read_return auth_rejected, Read_lookup, Read_call, Read_select, Read_begin,
      Read_return (ReadError (TransportError ''EOF'')), Read_deferred,
      Auth_receive, Auth_delete, Connect_cleanup None]"

section \<open>Properties\<close>

subsection \<open>Basic facts\<close>

lemma emit_fields [simp]:
  "isConnected (emit e c) = isConnected c" "isAuthenticated (emit e c) = isAuthenticated c"
  "handlers (emit e c) = handlers c" "reconnect (emit e c) = reconnect c"
  "done_closed (emit e c) = done_closed c" "conn (emit e c) = conn c"
  "errHandler (emit e c) = errHandler c" "trace (emit e c) = trace c @ [e]"
  "BaseURL (emit e c) = BaseURL c" "reconnectDelay (emit e c) = reconnectDelay c"
  "APIKey (emit e c) = APIKey c" "APISecret (emit e c) = APISecret c"
  by (simp_all add: emit_def)

lemma teardown_fields [simp]:
  "isConnected (readMessages_teardown c) = False"
  "isAuthenticated (readMessages_teardown c) = False"
  "handlers (readMessages_teardown c) = handlers c"
  "reconnect (readMessages_teardown c) = reconnect c"
  "done_closed (readMessages_teardown c) = done_closed c"
  "conn (readMessages_teardown c) = conn c"
  "errHandler (readMessages_teardown c) = errHandler c"
  "trace (readMessages_teardown c) = trace c"
  "BaseURL (readMessages_teardown c) = BaseURL c"
  "reconnectDelay (readMessages_teardown c) = reconnectDelay c"
  by (simp_all add: readMessages_teardown_def)

lemma reader_ends_fields [simp]:
  "isConnected (reader_ends e c) = False"
  "isAuthenticated (reader_ends e c) = False"
  "handlers (reader_ends e c) = handlers c"
  "reconnect (reader_ends e c) = reconnect c"
  "done_closed (reader_ends e c) = done_closed c"
  "conn (reader_ends e c) = conn c"
  "errHandler (reader_ends e c) = errHandler c"
  "BaseURL (reader_ends e c) = BaseURL c"
  by (simp_all add: reader_ends_def split: option.splits)

lemma reader_before_send_fields [simp]:
  "reconnect (reader_before_send env c) = reconnect c"
  "done_closed (reader_before_send env c) = done_closed c"
  "conn (reader_before_send env c) = conn c"
  "errHandler (reader_before_send env c) = errHandler c"
  by (simp_all add: reader_before_send_def split: reader_exit.splits)

lemma reader_before_return_fields [simp]:
  "reconnect (reader_before_return env c) = reconnect c"
  "done_closed (reader_before_return env c) = done_closed c"
  "conn (reader_before_return env c) = conn c"
  "errHandler (reader_before_return env c) = errHandler c"
  by (simp_all add: reader_before_return_def split: reader_exit.splits)

lemma callable_simps [simp]:
  "callable None = False" "callable (Some NilHandler) = False"
  "callable (Some (UserHandler n)) = True" "callable (Some TempHandler) = True"
  by (simp_all add: callable_def)

lemma call_handler_handlers [simp]: "handlers (call_handler h m r c) = handlers c"
  by (auto simp: call_handler_def split: option.splits WsHandler.splits)

lemma call_handler_reconnect [simp]: "reconnect (call_handler h m r c) = reconnect c"
  by (auto simp: call_handler_def split: option.splits WsHandler.splits)

lemma dispatch_reconnect [simp]: "reconnect (dispatch c m r) = reconnect c"
  by (simp add: dispatch_def Let_def)

lemma SendJSON_fields [simp]:
  "reconnect (snd (SendJSON wr c v)) = reconnect c"
  "isConnected (snd (SendJSON wr c v)) = isConnected c"
  "done_closed (snd (SendJSON wr c v)) = done_closed c"
  "conn (snd (SendJSON wr c v)) = conn c"
  "errHandler (snd (SendJSON wr c v)) = errHandler c"
  "handlers (snd (SendJSON wr c v)) = handlers c"
  by (auto simp: SendJSON_def split: option.splits)

lemma authenticate_fields [simp]:
  "reconnect (snd (authenticate H env c)) = reconnect c"
  "isConnected (snd (authenticate H env c)) = isConnected c"
  "done_closed (snd (authenticate H env c)) = done_closed c"
  "conn (snd (authenticate H env c)) = conn c"
  "errHandler (snd (authenticate H env c)) = errHandler c"
  by (auto simp: authenticate_def SendJSON_def Let_def delivered_def
           split: option.splits auth_reply.splits)


lemma authenticate_not_connected:
  "\<not> isConnected c \<Longrightarrow> authenticate H env c = (Some NotConnected, c)"
  by (auto simp: authenticate_def SendJSON_def split: option.splits)



subsection \<open>The example client\<close>

lemma connected_client_result:
  "Connect example_hmac example_env (NewWsClient ''key'' ''secret'') =
     (Returned None, connected_client)"
  by (simp add: connected_client_def Connect_def NewWsClient_def example_env_def
      authenticate_def SendJSON_def emit_def Let_def delivered_def reader_before_send_def
      reader_before_return_def)

lemma connected_client_fields:
  "isConnected connected_client" "isAuthenticated connected_client"
  "reconnect connected_client" "\<not> done_closed connected_client"
  "conn connected_client = Some 1" "errHandler connected_client = None"
  "handlers connected_client = Map.empty"
  "BaseURL connected_client = BaseWSMainURL"
  "reconnectDelay connected_client = 5 * Second"
  by (simp_all add: connected_client_def Connect_def NewWsClient_def example_env_def
      authenticate_def SendJSON_def emit_def Let_def getWSEndpoint_def delivered_def
      reader_before_send_def reader_before_return_def)

lemma connected_client_trace:
  "trace connected_client =
     [EvDial BaseWSMainURL, EvGo ReadMessages,
      EvWriteJSON 1 (authMsg example_hmac (NewWsClient ''key'' ''secret'') (now example_env)),
      EvGo KeepAlive]"
  by (simp add: connected_client_def Connect_def NewWsClient_def example_env_def
      authenticate_def SendJSON_def emit_def Let_def getWSEndpoint_def authMsg_def sign_def
      delivered_def reader_before_send_def reader_before_return_def)


subsection \<open>The signer\<close>

text \<open>
  C6. \<^verbatim>\<open>sign\<close> is a function of the secret and the payload alone: two streaming clients
  and a REST client that hold the same secret produce the same hexadecimal signature for
  the same payload bytes, whatever else their states are. The result is a value; no
  state is passed in or out, so signing has no effect on the client.
\<close>

theorem sign_signers_agree:
  assumes "APISecret ws = secret" and "APISecret ws' = secret"
    and "Client_APISecret rc = secret"
  shows "sign H ws payload = sign H ws' payload \<and>
         sign H ws payload = Client_sign H rc payload"
  using assms by (simp add: sign_def Client_sign_def)

theorem sign_signers_agree_witness:
  "APISecret (NewWsClient ''key'' ''secret'') = ''secret'' \<and>
   APISecret (NewWsClientWithLocalAddr ''key2'' ''secret'' ''10.0.0.1'') = ''secret'' \<and>
   Client_APISecret \<lparr> Client_APIKey = ''key'', Client_APISecret = ''secret'',
     Client_BaseURL = ''https://api.versifi.io'', Client_UserAgent = ''Versifi/go'',
     Client_Debug = False \<rparr> = ''secret'' \<and>
   sign example_hmac (NewWsClient ''key'' ''secret'') ''GET/realtime1700000300'' =
     sign example_hmac (NewWsClientWithLocalAddr ''key2'' ''secret'' ''10.0.0.1'')
       ''GET/realtime1700000300'' \<and>
   sign example_hmac (NewWsClient ''key'' ''secret'') ''GET/realtime1700000300'' =
     Client_sign example_hmac \<lparr> Client_APIKey = ''key'', Client_APISecret = ''secret'',
       Client_BaseURL = ''https://api.versifi.io'', Client_UserAgent = ''Versifi/go'',
       Client_Debug = False \<rparr> ''GET/realtime1700000300''"
proof -
  have a: "APISecret (NewWsClient ''key'' ''secret'') = ''secret''"
    by (simp add: NewWsClient_def)
  have b: "APISecret (NewWsClientWithLocalAddr ''key2'' ''secret'' ''10.0.0.1'') = ''secret''"
    by (simp add: NewWsClientWithLocalAddr_def NewWsClient_def)
  have c: "Client_APISecret \<lparr> Client_APIKey = ''key'', Client_APISecret = ''secret'',
     Client_BaseURL = ''https://api.versifi.io'', Client_UserAgent = ''Versifi/go'',
     Client_Debug = False \<rparr> = ''secret''"
    by simp
  from sign_signers_agree [OF a b c] a b c show ?thesis by blast
qed

subsection \<open>Usage errors\<close>

text \<open>
  C4. While \<^verbatim>\<open>IsAuthenticated()\<close> is false, \<^verbatim>\<open>Subscribe\<close> returns the error "not
  authenticated" and leaves the client as it was: nothing is added to the trace, so no
  frame is written, and the registry of handlers is not touched.
\<close>

theorem Subscribe_unauthenticated:
  "\<not> IsAuthenticated c \<Longrightarrow> Subscribe wr c topic handler = (Some NotAuthenticated, c)"
  by (simp add: Subscribe_def IsAuthenticated_def)

theorem Subscribe_unauthenticated_witness:
  "\<not> IsAuthenticated (NewWsClient ''key'' ''secret'') \<and>
   Subscribe None (NewWsClient ''key'' ''secret'') ''execution_report'' (UserHandler 1) =
     (Some NotAuthenticated, NewWsClient ''key'' ''secret'')"
proof -
  have a: "\<not> IsAuthenticated (NewWsClient ''key'' ''secret'')"
    by (simp add: IsAuthenticated_def NewWsClient_def)
  from Subscribe_unauthenticated [OF a] a show ?thesis by blast
qed

text \<open>
  C9. \<^verbatim>\<open>Connect\<close> on a client whose \<open>isConnected\<close> flag is set returns the error "already
  connected" and leaves the client as it was: the socket handle and both flags are
  unchanged and nothing is added to the trace, so no dial is made.
\<close>

theorem Connect_when_connected:
  "IsConnected c \<Longrightarrow> Connect H env c = (Returned (Some AlreadyConnected), c)"
  by (simp add: Connect_def IsConnected_def)

theorem Connect_when_connected_witness:
  "IsConnected connected_client \<and>
   Connect example_hmac example_env connected_client =
     (Returned (Some AlreadyConnected), connected_client)"
proof -
  have a: "IsConnected connected_client"
    by (simp add: IsConnected_def connected_client_fields)
  from Connect_when_connected [OF a] a show ?thesis by blast
qed

text \<open>
  C8. \<^verbatim>\<open>Disconnect\<close> on a client that is not connected returns nil and leaves the client
  as it was; it does not panic and does not close \<^verbatim>\<open>done\<close>. A \<^verbatim>\<open>Disconnect\<close> that returned
  nil leaves the client disconnected, so a second call after it is such a no-op.
\<close>

theorem Disconnect_when_disconnected:
  "(\<not> IsConnected c \<longrightarrow> Disconnect cl c = (Returned None, c)) \<and>
   (Disconnect cl1 d = (Returned None, d') \<longrightarrow>
      \<not> IsConnected d' \<and> Disconnect cl2 d' = (Returned None, d'))"
  by (auto simp: Disconnect_def IsConnected_def Let_def emit_def split: if_splits option.splits)

theorem Disconnect_when_disconnected_witness:
  "\<not> IsConnected (NewWsClient ''key'' ''secret'') \<and>
   Disconnect None (NewWsClient ''key'' ''secret'') =
     (Returned None, NewWsClient ''key'' ''secret'') \<and>
   Disconnect None connected_client = (Returned None, snd (Disconnect None connected_client)) \<and>
   \<not> IsConnected (snd (Disconnect None connected_client)) \<and>
   Disconnect None (snd (Disconnect None connected_client)) =
     (Returned None, snd (Disconnect None connected_client))"
proof -
  have a: "\<not> IsConnected (NewWsClient ''key'' ''secret'')"
    by (simp add: IsConnected_def NewWsClient_def)
  have b: "Disconnect None connected_client =
             (Returned None, snd (Disconnect None connected_client))"
    by (simp add: Disconnect_def connected_client_fields Let_def emit_def)
  from Disconnect_when_disconnected
         [of "NewWsClient ''key'' ''secret''" None None connected_client
             "snd (Disconnect None connected_client)" None]
       a b
  show ?thesis by blast
qed

text \<open>
  Where the first call did not disconnect the client the above says nothing: when
  \<^verbatim>\<open>conn.Close()\<close> fails, \<^verbatim>\<open>Disconnect\<close> returns the error with \<open>isConnected\<close> still set and
  \<^verbatim>\<open>done\<close> already closed, and the next \<^verbatim>\<open>Disconnect\<close> closes \<^verbatim>\<open>done\<close> again, which panics.
\<close>

lemma Disconnect_after_failed_close:
  "fst (Disconnect (Some (TransportError ''broken pipe'')) connected_client) =
     Returned (Some (FailedToCloseConnection (TransportError ''broken pipe''))) \<and>
   isConnected (snd (Disconnect (Some (TransportError ''broken pipe'')) connected_client)) \<and>
   fst (Disconnect None
          (snd (Disconnect (Some (TransportError ''broken pipe'')) connected_client))) = Panic"
  by (simp add: Disconnect_def connected_client_fields Let_def)

subsection \<open>Subscribing\<close>

lemma Subscribe_step_returned:
  "(Subscribe_step wr topic handler ^^ n) (S_returned r, c) = (S_returned r, c)"
  by (induction n) simp_all









subsection \<open>Dispatch of inbound frames\<close>

text \<open>
  The frames of \<^verbatim>\<open>execution_report\<close> go to the handler of that topic and then to the
  handler under \<^verbatim>\<open>*\<close>. For every other business operation the handler under \<^verbatim>\<open>*\<close> is
  called only when no handler is stored under the operation's own name.
\<close>

lemma dispatch_execution_report_calls_both:
  "new_events connected_client
     (dispatch
        (register ''*'' (UserHandler 2)
           (register ''execution_report'' (UserHandler 1) connected_client))
        ''report frame'' \<lparr> Op = ''execution_report'', Success = True, Message = ''{}'' \<rparr>) =
   [EvHandler 1 ''report frame'', EvHandler 2 ''report frame'']"
  by (simp add: dispatch_def register_def call_handler_def new_events_def)

lemma dispatch_business:
  assumes "Op r \<notin> {''auth'', ''ping'', ''subscribe'', ''execution_report''}"
    and "handlers c ''*'' = Some (UserHandler w)"
  shows "new_events c (dispatch c m r) =
           (case handlers c (Op r) of
              Some (UserHandler n) \<Rightarrow> [EvHandler n m]
            | Some TempHandler \<Rightarrow> []
            | _ \<Rightarrow> [EvHandler w m])"
  using assms
  by (auto simp: dispatch_def call_handler_def new_events_def
           split: option.splits WsHandler.splits)

text \<open>
  C1. The claim is that the handler under \<^verbatim>\<open>*\<close> is called for every business frame, in
  addition to the handler of the frame's own operation. The code does not do so: with
  handlers stored under \<^verbatim>\<open>analytics\<close> (the topic of \<^verbatim>\<open>SubscribeAnalytics\<close>) and under \<^verbatim>\<open>*\<close>,
  an \<^verbatim>\<open>analytics\<close> frame reaches the first handler only.
\<close>

theorem dispatch_other_topic_skips_wildcard:
  "new_events connected_client
     (dispatch
        (register ''*'' (UserHandler 2) (register ''analytics'' (UserHandler 1) connected_client))
        ''analytics frame'' \<lparr> Op = ''analytics'', Success = True, Message = ''{}'' \<rparr>) =
   [EvHandler 1 ''analytics frame'']"
  by (simp add: dispatch_def register_def call_handler_def new_events_def)

subsection \<open>The authentication frame\<close>

lemma digits_chars: "0 \<le> n \<Longrightarrow> set (digits n) \<subseteq> set ''0123456789''"
proof (induction n rule: digits.induct)
  case (1 n)
  show ?case
  proof (cases "n < 10")
    case True
    with 1(2) have "nat n < 10" by simp
    then have "''0123456789'' ! nat n \<in> set ''0123456789''"
      by (intro nth_mem) simp
    with True show ?thesis by (subst digits.simps) simp
  next
    case False
    then have ih: "set (digits (n div 10)) \<subseteq> set ''0123456789''"
      using 1 by simp
    have "nat (n mod 10) < 10" using 1(2) by simp
    then have "''0123456789'' ! nat (n mod 10) \<in> set ''0123456789''"
      by (intro nth_mem) simp
    with False ih show ?thesis by (subst digits.simps) simp
  qed
qed

lemma auth_expires_eq: "auth_expires t = t div 1000000000 + 300"
  by (simp add: auth_expires_def Unix_def Add_def Minute_def Second_def)

text \<open>A known value: the clock shows 1700000000.999999999 seconds.\<close>

lemma auth_payload_known:
  "auth_payload (1700000000 * Second + 999999999) = ''GET/realtime1700000300''"
  by (simp add: auth_payload_def auth_expires_def Unix_def Add_def Minute_def Second_def
      Sprintf_d_def digits.simps)

text \<open>
  C5. For every clock value \<open>t\<close> (in nanoseconds) the expiry is the Unix time of \<open>t\<close> plus
  300 seconds; the signed payload is the twelve bytes \<^verbatim>\<open>GET/realtime\<close> followed at once by
  the decimal expiry, which for a clock not before the epoch consists of digits only; the
  frame is the object with \<^verbatim>\<open>op\<close> equal to \<^verbatim>\<open>auth\<close> and \<^verbatim>\<open>args\<close> the key, the decimal expiry
  and the hexadecimal MAC of the payload under the secret; and on a connected client this
  frame is the one thing \<^verbatim>\<open>authenticate\<close> writes.
\<close>

theorem authenticate_frame:
  "auth_expires t = t div 1000000000 + 300 \<and>
   auth_payload t = ''GET/realtime'' @ Sprintf_d (t div 1000000000 + 300) \<and>
   authMsg H c t =
     JObject [(''op'', JString ''auth''),
              (''args'', JArray [JString (APIKey c),
                                 JString (Sprintf_d (t div 1000000000 + 300)),
                                 JString (hex_EncodeToString
                                   (H (APISecret c)
                                      (''GET/realtime'' @ Sprintf_d (t div 1000000000 + 300))))])] \<and>
   (0 \<le> t \<longrightarrow> set (Sprintf_d (auth_expires t)) \<subseteq> set ''0123456789'') \<and>
   (isConnected c \<and> conn c = Some k \<longrightarrow>
      new_events c (snd (authenticate H env c)) = [EvWriteJSON k (authMsg H c (now env))])"
proof -
  have e: "auth_expires t = t div 1000000000 + 300" by (rule auth_expires_eq)
  have d: "0 \<le> t \<longrightarrow> set (Sprintf_d (auth_expires t)) \<subseteq> set ''0123456789''"
  proof
    assume "0 \<le> t"
    then have "0 \<le> auth_expires t" by (simp add: e)
    then show "set (Sprintf_d (auth_expires t)) \<subseteq> set ''0123456789''"
      using digits_chars [of "auth_expires t"] by (simp add: Sprintf_d_def)
  qed
  have w: "isConnected c \<and> conn c = Some k \<longrightarrow>
      new_events c (snd (authenticate H env c)) = [EvWriteJSON k (authMsg H c (now env))]"
    by (auto simp: authenticate_def SendJSON_def new_events_def Let_def
             split: option.splits auth_reply.splits)
  from e d w show ?thesis
    by (simp add: auth_payload_def authMsg_def sign_def)
qed

theorem authenticate_frame_witness:
  "(0::int) \<le> 1700000000 * Second \<and>
   isConnected dialled_client \<and> conn dialled_client = Some 1 \<and>
   auth_payload (1700000000 * Second) = ''GET/realtime1700000300'' \<and>
   set (Sprintf_d (auth_expires (1700000000 * Second))) \<subseteq> set ''0123456789'' \<and>
   new_events dialled_client (snd (authenticate example_hmac example_env dialled_client)) =
     [EvWriteJSON 1 (authMsg example_hmac dialled_client (now example_env))]"
proof -
  have a: "(0::int) \<le> 1700000000 * Second" by (simp add: Second_def)
  have b: "isConnected dialled_client \<and> conn dialled_client = Some 1"
    by (simp add: dialled_client_def)
  have c: "Sprintf_d (1700000000 * Second div 1000000000 + 300) = ''1700000300''"
    by (simp add: Second_def Sprintf_d_def digits.simps)
  from authenticate_frame [of "1700000000 * Second" example_hmac dialled_client 1 example_env]
       a b c
  show ?thesis by simp
qed

subsection \<open>The reconnect flag\<close>


text \<open>The same after a timeout of the wait for the reply.\<close>

lemma Connect_timeout_clears_reconnect:
  "fst (Connect example_hmac (example_env \<lparr> reply := NoReply \<rparr>) (NewWsClient ''key'' ''secret'')) =
     Returned (Some (AuthenticationFailed AuthenticationTimeout)) \<and>
   \<not> reconnect (snd (Connect example_hmac (example_env \<lparr> reply := NoReply \<rparr>)
                        (NewWsClient ''key'' ''secret'')))"
  by (simp add: Connect_def NewWsClient_def example_env_def authenticate_def
      SendJSON_def Disconnect_def Let_def delivered_def reader_before_send_def
      reader_before_return_def)

text \<open>
  When the server closes the socket after the rejection and the read loop has ended
  before \<^verbatim>\<open>Connect\<close> cleans up, that \<^verbatim>\<open>Disconnect\<close> finds the client disconnected and returns
  at once: \<open>reconnect\<close> stays set and \<^verbatim>\<open>done\<close> stays open.
\<close>

lemma Connect_closing_keeps_reconnect:
  "fst (Connect example_hmac closing_env (NewWsClient ''key'' ''secret'')) =
     Returned (Some (AuthenticationFailed (AuthRejected ''invalid signature''))) \<and>
   \<not> isConnected (snd (Connect example_hmac closing_env (NewWsClient ''key'' ''secret''))) \<and>
   reconnect (snd (Connect example_hmac closing_env (NewWsClient ''key'' ''secret''))) \<and>
   \<not> done_closed (snd (Connect example_hmac closing_env (NewWsClient ''key'' ''secret'')))"
  by (simp add: Connect_def NewWsClient_def closing_env_def rejecting_env_def example_env_def
      authenticate_def SendJSON_def Disconnect_def Let_def delivered_def reader_before_send_def
      reader_before_return_def reader_ends_def readMessages_teardown_def)

text \<open>
  A \<^verbatim>\<open>Connect\<close> on a client whose \<^verbatim>\<open>done\<close> is closed (an earlier \<^verbatim>\<open>Disconnect\<close>) cannot
  succeed: its read loop ends at once, no reply is handed over, and the wait times out.
\<close>

lemma Connect_after_Disconnect:
  "fst (Connect example_hmac example_env (snd (Disconnect None connected_client))) =
     Returned (Some (AuthenticationFailed AuthenticationTimeout)) \<and>
   \<not> isConnected (snd (Connect example_hmac example_env (snd (Disconnect None connected_client)))) \<and>
   \<not> isAuthenticated
       (snd (Connect example_hmac example_env (snd (Disconnect None connected_client))))"
  by (simp add: Connect_def Disconnect_def connected_client_fields example_env_def
      authenticate_def SendJSON_def Let_def delivered_def reader_before_send_def
      reader_before_return_def readMessages_teardown_def)






text \<open>
  The two descriptions of \<^verbatim>\<open>Connect\<close> agree: the schedule in which the server rejects and
  the read loop goes on reading ends in the client that \<open>Connect\<close> gives for
  \<open>rejecting_env\<close>, and the schedule in which the server then closes the socket ends in
  the client that \<open>Connect\<close> gives for \<open>closing_env\<close>.
\<close>

lemma rejected_schedule_run:
  "run example_hmac rejected_schedule (initial_config ''key'' ''secret'') \<noteq> None"
  "caller (the (run example_hmac rejected_schedule (initial_config ''key'' ''secret''))) =
     M_returned (Some (AuthenticationFailed (AuthRejected ''invalid signature'')))"
  "reader (the (run example_hmac rejected_schedule (initial_config ''key'' ''secret''))) =
     R_reading 1"
  "client (the (run example_hmac rejected_schedule (initial_config ''key'' ''secret''))) =
     snd (Connect example_hmac rejecting_env (NewWsClient ''key'' ''secret''))"
  by (simp_all add: rejected_schedule_def handshake_prefix_def auth_rejected_def
      initial_config_def NewWsClient_def SendJSON_def register_def Disconnect_def
      call_handler_def Let_def Connect_def rejecting_env_def example_env_def authenticate_def
      delivered_def reader_before_send_def reader_before_return_def emit_def)

lemma closing_schedule_run:
  "run example_hmac closing_schedule (initial_config ''key'' ''secret'') \<noteq> None"
  "caller (the (run example_hmac closing_schedule (initial_config ''key'' ''secret''))) =
     M_returned (Some (AuthenticationFailed (AuthRejected ''invalid signature'')))"
  "reader (the (run example_hmac closing_schedule (initial_config ''key'' ''secret''))) =
     R_cleared"
  "reconnect (client (the (run example_hmac closing_schedule
                             (initial_config ''key'' ''secret''))))"
  "client (the (run example_hmac closing_schedule (initial_config ''key'' ''secret''))) =
     snd (Connect example_hmac closing_env (NewWsClient ''key'' ''secret''))"
  by (simp_all add: closing_schedule_def handshake_prefix_def auth_rejected_def
      initial_config_def NewWsClient_def SendJSON_def register_def Disconnect_def
      call_handler_def Let_def Connect_def closing_env_def rejecting_env_def example_env_def
      authenticate_def delivered_def reader_before_send_def reader_before_return_def emit_def
      reader_ends_def readMessages_teardown_def)

subsection \<open>Reconnection\<close>

lemma dials_emit [simp]:
  "dials (emit e c) = dials c + (case e of EvDial u \<Rightarrow> 1 | _ \<Rightarrow> 0)"
  by (cases e) (simp_all add: dials_def)

lemma dials_trace: "trace c' = trace c \<Longrightarrow> dials c' = dials c"
  by (simp add: dials_def)

lemma dials_set_conn [simp]: "dials (c \<lparr> conn := x, isConnected := y \<rparr>) = dials c"
  by (simp add: dials_def)

lemma dials_teardown [simp]: "dials (readMessages_teardown c) = dials c"
  by (simp add: dials_def)

lemma dials_reader_ends [simp]: "dials (reader_ends e c) = dials c"
  by (simp add: reader_ends_def split: option.splits)

lemma dials_reader_before_send [simp]: "dials (reader_before_send env c) = dials c"
  by (simp add: reader_before_send_def split: reader_exit.splits)

lemma dials_reader_before_return [simp]: "dials (reader_before_return env c) = dials c"
  by (simp add: reader_before_return_def split: reader_exit.splits)

lemma dials_SendJSON [simp]: "dials (snd (SendJSON wr c v)) = dials c"
  by (auto simp: SendJSON_def split: option.splits)

lemma dials_authenticate [simp]: "dials (snd (authenticate H env c)) = dials c"
proof -
  have "dials (snd (authenticate H env c)) =
          dials (snd (SendJSON (auth_write env) c (authMsg H c (now env))))"
    by (auto simp: authenticate_def Let_def dials_def
             split: prod.splits option.splits auth_reply.splits)
  then show ?thesis by simp
qed




lemma deferred_no_reconnect:
  "\<not> reconnect c \<Longrightarrow> readMessages_deferred H env c = (Returned (), readMessages_teardown c)"
  by (simp add: readMessages_deferred_def)













lemma chain_no_reconnect:
  "\<not> reconnect c \<Longrightarrow> dials (snd (reconnect_chain H envs c)) = dials c"
  by (cases envs)
     (simp_all add: deferred_no_reconnect started_reader_def new_events_def)




text \<open>
  Attempts that fail at the authentication, by contrast. When the server rejects the
  signature and then closes the socket, each attempt leaves \<open>reconnect\<close> set and the end
  of its read loop leads to the next attempt: three environments, three dials. When the
  server rejects and keeps the socket open, the cleanup \<^verbatim>\<open>Disconnect\<close> of the first attempt
  clears \<open>reconnect\<close>, and the end of its read loop leads to nothing.
\<close>

lemma reconnect_chain_retries:
  "dials (snd (reconnect_chain example_hmac [closing_env, closing_env, closing_env]
                 connected_client)) = dials connected_client + 3"
  "reconnect (snd (reconnect_chain example_hmac [closing_env, closing_env, closing_env]
                     connected_client))"
  by (simp_all add: readMessages_deferred_def Connect_def Let_def closing_env_def
      rejecting_env_def example_env_def connected_client_fields started_reader_def
      new_events_def dials_def authenticate_def SendJSON_def Disconnect_def delivered_def
      reader_before_send_def reader_before_return_def reader_ends_def
      readMessages_teardown_def emit_def)

lemma reconnect_chain_rejected:
  "dials (snd (reconnect_chain example_hmac [rejecting_env, example_env, example_env]
                 connected_client)) = dials connected_client + 1"
  "\<not> reconnect (snd (reconnect_chain example_hmac [rejecting_env, example_env, example_env]
                       connected_client))"
  by (simp_all add: readMessages_deferred_def Connect_def Let_def
      rejecting_env_def example_env_def connected_client_fields started_reader_def
      new_events_def dials_def authenticate_def SendJSON_def Disconnect_def delivered_def
      reader_before_send_def reader_before_return_def reader_ends_def
      readMessages_teardown_def emit_def)





subsection \<open>The two flags\<close>

text \<open>
  The handshake schedules, run step by step. At the end of \<open>race_schedule\<close> the read loop
  is back at its \<^verbatim>\<open>select\<close>; its next two steps find \<^verbatim>\<open>done\<close> closed and clear the flags.
  In \<open>timeout_schedule\<close> no third goroutine takes part: the call of \<^verbatim>\<open>Connect\<close> and its own
  read loop reach the same state.
\<close>

lemma race_schedule_run:
  "run example_hmac race_schedule (initial_config ''key'' ''secret'') \<noteq> None"
  "\<not> panicked (the (run example_hmac race_schedule (initial_config ''key'' ''secret'')))"
  "isAuthenticated (client (the (run example_hmac race_schedule (initial_config ''key'' ''secret''))))"
  "\<not> isConnected (client (the (run example_hmac race_schedule (initial_config ''key'' ''secret''))))"
  "reader (the (run example_hmac race_schedule (initial_config ''key'' ''secret''))) = R_select"
  by (simp_all add: race_schedule_def handshake_prefix_def auth_accepted_def initial_config_def
      NewWsClient_def SendJSON_def register_def Disconnect_def call_handler_def Let_def)

lemma timeout_schedule_run:
  "run example_hmac timeout_schedule (initial_config ''key'' ''secret'') \<noteq> None"
  "caller (the (run example_hmac timeout_schedule (initial_config ''key'' ''secret''))) =
     M_returned (Some (AuthenticationFailed AuthenticationTimeout))"
  "isAuthenticated (client (the (run example_hmac timeout_schedule (initial_config ''key'' ''secret''))))"
  "\<not> isConnected (client (the (run example_hmac timeout_schedule (initial_config ''key'' ''secret''))))"
  by (simp_all add: timeout_schedule_def handshake_prefix_def auth_accepted_def
      initial_config_def NewWsClient_def SendJSON_def register_def Disconnect_def
      call_handler_def Let_def)

lemma race_schedule_end:
  "run example_hmac (race_schedule @ [Read_select, Read_deferred])
     (initial_config ''key'' ''secret'') \<noteq> None"
  "\<not> isAuthenticated (client (the (run example_hmac (race_schedule @ [Read_select, Read_deferred])
     (initial_config ''key'' ''secret''))))"
  by (simp_all add: race_schedule_def handshake_prefix_def auth_accepted_def initial_config_def
      NewWsClient_def SendJSON_def register_def Disconnect_def call_handler_def Let_def
      readMessages_teardown_def)

text \<open>
  Both operations that clear the connected flag clear the authenticated flag in the same
  critical section.
\<close>

lemma clearing_clears_both:
  "isConnected c \<and> \<not> isConnected (snd (Disconnect cl c)) \<longrightarrow>
     \<not> isAuthenticated (snd (Disconnect cl c))"
  "\<not> isConnected (readMessages_teardown c) \<and> \<not> isAuthenticated (readMessages_teardown c)"
  by (auto simp: Disconnect_def Let_def split: option.splits)

text \<open>
  C10. The claim is that in every reachable state of the client \<^verbatim>\<open>IsAuthenticated()\<close>
  implies \<^verbatim>\<open>IsConnected()\<close>. The code does not keep this: \<^verbatim>\<open>Connect\<close> has sent the auth frame
  and stored \<^verbatim>\<open>tempHandler\<close>; the read loop has read the server's acceptance and fetched the
  handler under the read lock; before it calls the handler, another goroutine runs
  \<^verbatim>\<open>Disconnect\<close>, which clears both flags; the handler then sets \<open>isAuthenticated\<close> under
  the lock without looking at \<open>isConnected\<close>. The state reached has \<^verbatim>\<open>IsAuthenticated()\<close>
  true and \<^verbatim>\<open>IsConnected()\<close> false.
\<close>

theorem handshake_race:
  "run example_hmac race_schedule (initial_config ''key'' ''secret'') \<noteq> None \<and>
   interleaved_reachable example_hmac
     (client (the (run example_hmac race_schedule (initial_config ''key'' ''secret'')))) \<and>
   IsAuthenticated
     (client (the (run example_hmac race_schedule (initial_config ''key'' ''secret'')))) \<and>
   \<not> IsConnected
     (client (the (run example_hmac race_schedule (initial_config ''key'' ''secret''))))"
proof -
  from race_schedule_run(1) obtain s
    where s: "run example_hmac race_schedule (initial_config ''key'' ''secret'') = Some s"
    by auto
  then have "interleaved_reachable example_hmac (client s)"
    unfolding interleaved_reachable_def by blast
  with s race_schedule_run(3,4) show ?thesis
    by (simp add: IsAuthenticated_def IsConnected_def)
qed

end
